theory Spec2Isabelle
  imports Main "HOL-Library.Word"
begin

unbundle bit_operations_syntax

section \<open>The declarations of gbm.h\<close>

text \<open>
  The repository's C source is one header, \<open>gbm-sys/include/gbm.h\<close>. It declares three
  opaque structs, a union of handle representations, an enumeration of pixel formats, two
  enumerations of bit flags, three import tags, one plain struct and the prototypes of the
  library. No function has a body: what the header fixes about the program is the value of
  every constant and the type of every function.

  An enumerator is a C \<open>int\<close> constant, and every prototype receives formats and flags as
  \<open>uint32_t\<close>. The constants are therefore 32-bit words, each written as the header writes
  it: \<open>(1 << n)\<close> is \<open>push_bit n 1\<close>, \<open>a | b\<close> is \<open>a OR b\<close>.
\<close>

type_synonym uint32_t = "32 word"

text \<open>A C \<open>int\<close>: a 32-bit word, read as two's complement by \<open>sint\<close>.\<close>

type_synonym int32_t = "32 word"

subsection \<open>The opaque structs\<close>

text \<open>
  \<open>struct gbm_device\<close>, \<open>struct gbm_bo\<close> and \<open>struct gbm_surface\<close> are declared and never
  defined: a caller holds pointers to them and nothing else. Each is a type of handles
  about which nothing is known.
\<close>

typedecl gbm_device

typedecl gbm_bo

typedecl gbm_surface

subsection \<open>enum gbm_bo_format\<close>

datatype gbm_bo_format = GBM_BO_FORMAT_XRGB8888 | GBM_BO_FORMAT_ARGB8888

text \<open>The enumerators carry no initialiser, so C numbers them 0 and 1.\<close>

fun gbm_bo_format_value :: "gbm_bo_format \<Rightarrow> uint32_t" where
  "gbm_bo_format_value GBM_BO_FORMAT_XRGB8888 = 0"
| "gbm_bo_format_value GBM_BO_FORMAT_ARGB8888 = 1"

subsection \<open>enum gbm_bo_flags\<close>

definition GBM_BO_USE_SCANOUT :: uint32_t where
  "GBM_BO_USE_SCANOUT = push_bit 0 1"

definition GBM_BO_USE_CURSOR :: uint32_t where
  "GBM_BO_USE_CURSOR = push_bit 1 1"

text \<open>Marked "Deprecated" in the header, and initialised with the enumerator before it.\<close>

definition GBM_BO_USE_CURSOR_64X64 :: uint32_t where
  "GBM_BO_USE_CURSOR_64X64 = GBM_BO_USE_CURSOR"

definition GBM_BO_USE_RENDERING :: uint32_t where
  "GBM_BO_USE_RENDERING = push_bit 2 1"

definition GBM_BO_USE_WRITE :: uint32_t where
  "GBM_BO_USE_WRITE = push_bit 3 1"

definition GBM_BO_USE_LINEAR :: uint32_t where
  "GBM_BO_USE_LINEAR = push_bit 4 1"

subsection \<open>enum gbm_bo_transfer_flags\<close>

definition GBM_BO_TRANSFER_READ :: uint32_t where
  "GBM_BO_TRANSFER_READ = push_bit 0 1"

definition GBM_BO_TRANSFER_WRITE :: uint32_t where
  "GBM_BO_TRANSFER_WRITE = push_bit 1 1"

definition GBM_BO_TRANSFER_READ_WRITE :: uint32_t where
  "GBM_BO_TRANSFER_READ_WRITE = GBM_BO_TRANSFER_READ OR GBM_BO_TRANSFER_WRITE"

subsection \<open>The import tags and struct gbm_import_fd_data\<close>

definition GBM_BO_IMPORT_WL_BUFFER :: uint32_t where
  "GBM_BO_IMPORT_WL_BUFFER = 0x5501"

definition GBM_BO_IMPORT_EGL_IMAGE :: uint32_t where
  "GBM_BO_IMPORT_EGL_IMAGE = 0x5502"

definition GBM_BO_IMPORT_FD :: uint32_t where
  "GBM_BO_IMPORT_FD = 0x5503"

text \<open>
  The fields carry the prefix \<open>import_\<close>: a record field is a constant of the whole theory,
  and the C names \<open>fd\<close>, \<open>width\<close>, \<open>height\<close>, \<open>stride\<close> and \<open>format\<close> are wanted as
  variables.
\<close>

record gbm_import_fd_data =
  import_fd :: int32_t
  import_width :: uint32_t
  import_height :: uint32_t
  import_stride :: uint32_t
  import_format :: uint32_t

section \<open>The flag values\<close>

text \<open>
  C8. The usage flags are Scanout = 1, Cursor = 2, Rendering = 4, Write = 8 and Linear = 16;
  the transfer flags are Read = 1, Write = 2 and ReadWrite = 3, and ReadWrite is the bitwise
  OR of Read and Write.
\<close>

theorem gbm_flag_values:
  "GBM_BO_USE_SCANOUT = 1 \<and> GBM_BO_USE_CURSOR = 2 \<and> GBM_BO_USE_RENDERING = 4
   \<and> GBM_BO_USE_WRITE = 8 \<and> GBM_BO_USE_LINEAR = 16
   \<and> GBM_BO_TRANSFER_READ = 1 \<and> GBM_BO_TRANSFER_WRITE = 2
   \<and> GBM_BO_TRANSFER_READ_WRITE = 3
   \<and> GBM_BO_TRANSFER_READ_WRITE = GBM_BO_TRANSFER_READ OR GBM_BO_TRANSFER_WRITE"
  by (simp add: GBM_BO_USE_SCANOUT_def GBM_BO_USE_CURSOR_def GBM_BO_USE_RENDERING_def
      GBM_BO_USE_WRITE_def GBM_BO_USE_LINEAR_def GBM_BO_TRANSFER_READ_def
      GBM_BO_TRANSFER_WRITE_def GBM_BO_TRANSFER_READ_WRITE_def)

section \<open>The deprecated cursor flag\<close>

text \<open>
  The prototypes that the next statement speaks about are
  \<^verbatim>\<open>struct gbm_bo *gbm_bo_create(struct gbm_device *gbm, uint32_t width, uint32_t height,
                            uint32_t format, uint32_t flags);\<close>
  and
  \<^verbatim>\<open>int gbm_bo_write(struct gbm_bo *bo, const void *buf, size_t count);\<close>
  Their bodies are not in the header, so they appear as variables: \<open>bo_create\<close> is any function
  of the state of the library before the call and of the five arguments, giving whatever
  the call leaves behind (the new state with the pointer returned); \<open>bo_write\<close> is any function
  of what a creation left behind and of the bytes to write. The flags reach \<open>bo_create\<close> as one
  \<open>uint32_t\<close>, with the other usage bits \<open>flags\<close> or'ed in by the caller.
\<close>

text \<open>
  C10. The deprecated flag \<open>GBM_BO_USE_CURSOR_64X64\<close> is the same number as
  \<open>GBM_BO_USE_CURSOR\<close>, namely 2; hence a create call gives the same result with either
  flag, alone or combined with other flags, and so does a write to the buffer created.
\<close>

theorem cursor_64x64_interchangeable:
  fixes bo_create :: "'s \<Rightarrow> gbm_device \<Rightarrow> uint32_t \<Rightarrow> uint32_t \<Rightarrow> uint32_t \<Rightarrow> uint32_t \<Rightarrow> 'r"
    and bo_write :: "'r \<Rightarrow> 8 word list \<Rightarrow> 'w"
  shows "GBM_BO_USE_CURSOR_64X64 = GBM_BO_USE_CURSOR
   \<and> unat GBM_BO_USE_CURSOR_64X64 = 2 \<and> unat GBM_BO_USE_CURSOR = 2
   \<and> bo_create s gbm width height format GBM_BO_USE_CURSOR_64X64
       = bo_create s gbm width height format GBM_BO_USE_CURSOR
   \<and> bo_create s gbm width height format (flags OR GBM_BO_USE_CURSOR_64X64)
       = bo_create s gbm width height format (flags OR GBM_BO_USE_CURSOR)
   \<and> bo_write (bo_create s gbm width height format (flags OR GBM_BO_USE_CURSOR_64X64)) buf
       = bo_write (bo_create s gbm width height format (flags OR GBM_BO_USE_CURSOR)) buf"
  by (simp add: GBM_BO_USE_CURSOR_64X64_def GBM_BO_USE_CURSOR_def)

end
